theory Spec2Isabelle
  imports Complex_Main
begin

section \<open>Numbers, objects and typed arrays\<close>

text \<open>
  JavaScript numbers are modelled as reals (no infinities).  Sums, differences and
  quotients are exact; the product whose rounding reaches \<^verbatim>\<open>Math.floor\<close>, the one
  in \<^verbatim>\<open>configure\<close>, is rounded to a double by the parameter \<open>to_double\<close>.
  A parameter object is a finite map from property names to numbers; an absent key is
  the value \<^verbatim>\<open>undefined\<close>, and a key that is present holds a number, as the
  parameter types declare.  An element of a \<^verbatim>\<open>Float32Array\<close> is \<open>Some x\<close> for the
  number \<open>x\<close> and \<open>None\<close> for NaN, which is what storing \<^verbatim>\<open>undefined\<close> leaves
  there.  The conversion to single precision that every store performs is the
  parameter \<open>fr\<close> of the functions below.
\<close>

type_synonym number = real
type_synonym object = "string \<rightharpoonup> number"
type_synonym Float32Array = "number option list"

text \<open>\<^verbatim>\<open>new Float32Array(n)\<close>: \<open>n\<close> zeros.\<close>

definition new_Float32Array :: "nat \<Rightarrow> Float32Array" where
  "new_Float32Array n = replicate n (Some 0)"

text \<open>\<^verbatim>\<open>buf[i] = v\<close> on a typed array: converted on store, ignored out of range.\<close>

definition f32_set :: "(number \<Rightarrow> number) \<Rightarrow> Float32Array \<Rightarrow> nat \<Rightarrow> number option \<Rightarrow> Float32Array" where
  "f32_set fr buf i v = (if i < length buf then buf[i := map_option fr v] else buf)"

text \<open>\<^verbatim>\<open>x || d\<close> on a possibly absent number: \<^verbatim>\<open>undefined\<close> and 0 are falsy.\<close>

definition js_or :: "number option \<Rightarrow> number \<Rightarrow> number" where
  "js_or x d = (case x of None \<Rightarrow> d | Some v \<Rightarrow> if v = 0 then d else v)"

text \<open>\<^verbatim>\<open>x ?? d\<close>.\<close>

definition nullish :: "'a option \<Rightarrow> 'a \<Rightarrow> 'a" where
  "nullish x d = (case x of None \<Rightarrow> d | Some v \<Rightarrow> v)"

definition Math_floor :: "number \<Rightarrow> number" where
  "Math_floor x = of_int \<lfloor>x\<rfloor>"

text \<open>\<^verbatim>\<open>{ ...a, ...b }\<close>: the own properties of \<open>b\<close> over those of \<open>a\<close>.\<close>

definition spread :: "object \<Rightarrow> object \<Rightarrow> object" where
  "spread a b = a ++ b"

section \<open>The renderer descriptor and the registry\<close>

record RendererDescriptor =
  ident :: string
  defaultParams :: object
  uniformFloats :: nat
  writeUniforms :: "Float32Array \<Rightarrow> number \<Rightarrow> number \<Rightarrow> number \<Rightarrow> number \<Rightarrow> object \<Rightarrow> Float32Array"

definition perlinNoise1_defaultParams :: object where
  "perlinNoise1_defaultParams = map_of
     [(''baseR'', 0.06), (''baseG'', 0.08), (''baseB'', 0.12),
      (''colAr'', 0.10), (''colAg'', 0.35), (''colAb'', 0.85),
      (''colBr'', 0.85), (''colBg'', 0.25), (''colBb'', 0.55),
      (''speed'', 0.15),
      (''_pad0'', 0), (''_pad1'', 0)]"

definition perlinNoise1_writeUniforms ::
  "(number \<Rightarrow> number) \<Rightarrow> Float32Array \<Rightarrow> number \<Rightarrow> number \<Rightarrow> number \<Rightarrow> number \<Rightarrow> object \<Rightarrow> Float32Array" where
  "perlinNoise1_writeUniforms fr buf time w h d p =
    (let buf = f32_set fr buf 0 (Some time);
         buf = f32_set fr buf 1 (Some w);
         buf = f32_set fr buf 2 (Some h);
         buf = f32_set fr buf 3 (Some d);
         buf = f32_set fr buf 4 (p ''baseR'');
         buf = f32_set fr buf 5 (p ''baseG'');
         buf = f32_set fr buf 6 (p ''baseB'');
         buf = f32_set fr buf 7 (p ''colAr'');
         buf = f32_set fr buf 8 (p ''colAg'');
         buf = f32_set fr buf 9 (p ''colAb'');
         buf = f32_set fr buf 10 (p ''colBr'');
         buf = f32_set fr buf 11 (p ''colBg'');
         buf = f32_set fr buf 12 (p ''colBb'');
         buf = f32_set fr buf 13 (p ''speed'')
     in buf)"

definition perlinNoise1 :: "(number \<Rightarrow> number) \<Rightarrow> RendererDescriptor" where
  "perlinNoise1 fr =
    \<lparr> ident = ''perlinNoise1'',
      defaultParams = perlinNoise1_defaultParams,
      uniformFloats = 16,
      writeUniforms = perlinNoise1_writeUniforms fr \<rparr>"

datatype RendererName = PerlinNoise1

fun renderers :: "(number \<Rightarrow> number) \<Rightarrow> RendererName \<Rightarrow> RendererDescriptor" where
  "renderers fr PerlinNoise1 = perlinNoise1 fr"

section \<open>The engine: closure constants, ambient readings, state\<close>

text \<open>
  The constants fixed when \<^verbatim>\<open>createBackground\<close> runs, and the rounding of an exact
  product to the double that the multiplication of the host returns.
\<close>

record config =
  descriptor :: RendererDescriptor
  maxDpr :: number
  shouldAnimate :: bool
  to_double :: "number \<Rightarrow> number"

text \<open>What an operation reads from the browser when it runs.\<close>

record ambient =
  now :: number
  devicePixelRatio :: "number option"
  clientWidth :: number
  clientHeight :: number

text \<open>
  The closure variables of \<^verbatim>\<open>createBackground\<close>, followed by what the calls on the
  canvas, the device, the observers and the frame scheduler leave behind: the canvas
  backing size, the number of context configurations, the contents of the GPU uniform
  buffer, the time stamp of every submitted frame (newest first), the callbacks
  waiting for the next animation frame, the next callback handle, whether the
  resize observer and the visibility listener are attached, and how often the
  uniform buffer has been released.
\<close>

record engine =
  mergedParams :: object
  pausedByVisibility :: bool
  uniformData :: Float32Array
  width :: number
  height :: number
  dpr :: number
  rafId :: "nat option"
  startTime :: number
  canvasWidth :: number
  canvasHeight :: number
  contextConfigures :: nat
  uniformBuffer :: Float32Array
  frames :: "number list"
  pending :: "nat list"
  nextHandle :: nat
  roObserving :: bool
  visibilityListener :: bool
  bufferDestroys :: nat

section \<open>Surface configuration and rendering\<close>

definition configure :: "config \<Rightarrow> ambient \<Rightarrow> engine \<Rightarrow> engine" where
  "configure cfg a s =
    (let d = max 1 (min (maxDpr cfg) (js_or (devicePixelRatio a) 1));
         cssW = max 1 (Math_floor (clientWidth a));
         cssH = max 1 (Math_floor (clientHeight a));
         w = max 1 (Math_floor (to_double cfg (cssW * d)));
         h = max 1 (Math_floor (to_double cfg (cssH * d)))
     in s\<lparr> dpr := d, width := w, height := h,
           canvasWidth := w, canvasHeight := h,
           contextConfigures := Suc (contextConfigures s) \<rparr>)"

definition drawFrame :: "config \<Rightarrow> number \<Rightarrow> engine \<Rightarrow> engine" where
  "drawFrame cfg timeSeconds s =
    (let u = writeUniforms (descriptor cfg) (uniformData s) timeSeconds
               (width s) (height s) (dpr s) (mergedParams s)
     in s\<lparr> uniformData := u, uniformBuffer := u, frames := timeSeconds # frames s \<rparr>)"

section \<open>The frame scheduler\<close>

definition requestAnimationFrame :: "engine \<Rightarrow> nat \<times> engine" where
  "requestAnimationFrame s =
    (nextHandle s, s\<lparr> pending := pending s @ [nextHandle s], nextHandle := Suc (nextHandle s) \<rparr>)"

definition cancelAnimationFrame :: "nat \<Rightarrow> engine \<Rightarrow> engine" where
  "cancelAnimationFrame h s = s\<lparr> pending := removeAll h (pending s) \<rparr>"

definition tick :: "config \<Rightarrow> ambient \<Rightarrow> engine \<Rightarrow> engine" where
  "tick cfg a s =
    (let s1 = (if \<not> pausedByVisibility s
               then drawFrame cfg ((now a - startTime s) / 1000) s else s);
         (h, s2) = requestAnimationFrame s1
     in s2\<lparr> rafId := Some h \<rparr>)"

text \<open>
  The frame callback of the earlier entry point \<^verbatim>\<open>createWebGPUProceduralBackground\<close>,
  over the render operation \<open>draw\<close>.
\<close>

definition tick_procedural :: "(number \<Rightarrow> engine \<Rightarrow> engine) \<Rightarrow> ambient \<Rightarrow> engine \<Rightarrow> engine" where
  "tick_procedural draw a s =
    (if pausedByVisibility s
     then (let (h, s1) = requestAnimationFrame s in s1\<lparr> rafId := Some h \<rparr>)
     else let t = (now a - startTime s) / 1000;
              s1 = draw t s;
              (h, s2) = requestAnimationFrame s1
          in s2\<lparr> rafId := Some h \<rparr>)"

definition start :: "config \<Rightarrow> ambient \<Rightarrow> engine \<Rightarrow> engine" where
  "start cfg a s =
    (if rafId s \<noteq> None then s
     else let s1 = s\<lparr> startTime := now a \<rparr>;
              s2 = configure cfg a s1
          in if shouldAnimate cfg
             then (let (h, s3) = requestAnimationFrame s2 in s3\<lparr> rafId := Some h \<rparr>)
             else drawFrame cfg 0 s2)"

definition stop :: "engine \<Rightarrow> engine" where
  "stop s =
    (case rafId s of
       None \<Rightarrow> s
     | Some h \<Rightarrow> (cancelAnimationFrame h s)\<lparr> rafId := None \<rparr>)"

definition destroy :: "engine \<Rightarrow> engine" where
  "destroy s =
    (let s1 = stop s
     in s1\<lparr> roObserving := False, visibilityListener := False,
            bufferDestroys := Suc (bufferDestroys s1) \<rparr>)"

section \<open>Initialisation\<close>

text \<open>
  How the call can fail: the three errors that \<^verbatim>\<open>createBackground\<close> throws itself,
  and the rejection of \<^verbatim>\<open>adapter.requestDevice()\<close>, which it awaits without a guard.
\<close>

datatype init_error = UnsupportedPlatform | NoAdapter | SurfaceUnavailable | DeviceRequestRejected

record Options =
  powerPreference :: "string option"
  respectReducedMotion :: "bool option"
  opt_maxDpr :: "number option"

text \<open>
  What the host answers while \<^verbatim>\<open>createBackground\<close> runs.  For each of the three
  requests, the answer to its \<open>k\<close>-th call (counted from 0) says whether that call
  yields an adapter, a device, a canvas context.  The last field is the rounding of the
  host's multiplication.
\<close>

record host =
  gpu_in_navigator :: bool
  requestAdapter_answer :: "nat \<Rightarrow> bool"
  requestDevice_answer :: "nat \<Rightarrow> bool"
  getContext_answer :: "nat \<Rightarrow> bool"
  matchMedia_is_function :: bool
  reduced_motion_matches :: bool
  document_hidden :: bool
  round_double :: "number \<Rightarrow> number"

text \<open>
  The closure variables as their declarations initialise them, and the host objects as
  the calls before the first \<^verbatim>\<open>configure()\<close> leave them: the visibility listener
  and the resize observer attached, both buffers zero-filled, nothing scheduled.  The
  canvas starts at the default size of an HTML canvas; \<^verbatim>\<open>createBackground\<close>
  configures it before it returns, so that size is never seen.
\<close>

definition initial_engine :: "RendererDescriptor \<Rightarrow> object \<Rightarrow> bool \<Rightarrow> number \<Rightarrow> engine" where
  "initial_engine desc merged hid t =
    \<lparr> mergedParams = merged,
      pausedByVisibility = hid,
      uniformData = new_Float32Array (uniformFloats desc),
      width = 1, height = 1, dpr = 1,
      rafId = None,
      startTime = t,
      canvasWidth = 300, canvasHeight = 150,
      contextConfigures = 0,
      uniformBuffer = new_Float32Array (uniformFloats desc),
      frames = [],
      pending = [],
      nextHandle = 1,
      roObserving = True,
      visibilityListener = True,
      bufferDestroys = 0 \<rparr>"

definition createBackground ::
  "(number \<Rightarrow> number) \<Rightarrow> host \<Rightarrow> ambient \<Rightarrow> RendererName \<Rightarrow> object \<Rightarrow> Options
     \<Rightarrow> init_error + (config \<times> engine)" where
  "createBackground fr hst a rendererName params opts =
    (if \<not> gpu_in_navigator hst then Inl UnsupportedPlatform
     else
       let desc = renderers fr rendererName;
           merged = spread (defaultParams desc) params;
           respect = nullish (respectReducedMotion opts) True;
           mx = nullish (opt_maxDpr opts) 3;
           prefersReducedMotion = (matchMedia_is_function hst \<and> reduced_motion_matches hst);
           cfg = \<lparr> descriptor = desc, maxDpr = mx,
                   shouldAnimate = (\<not> respect \<or> \<not> prefersReducedMotion),
                   to_double = round_double hst \<rparr>
       in if \<not> requestAdapter_answer hst 0 then Inl NoAdapter
          else if \<not> requestDevice_answer hst 0 then Inl DeviceRequestRejected
          else if \<not> getContext_answer hst 0 then Inl SurfaceUnavailable
          else Inr (cfg, configure cfg a
                           (initial_engine desc merged (document_hidden hst) (now a))))"

text \<open>The object \<^verbatim>\<open>{ start, stop, destroy }\<close> that \<^verbatim>\<open>createBackground\<close> returns.\<close>

datatype member = Start_fn | Stop_fn | Destroy_fn

definition Controller :: "string \<rightharpoonup> member" where
  "Controller = map_of [(''start'', Start_fn), (''stop'', Stop_fn), (''destroy'', Destroy_fn)]"

section \<open>Executions\<close>

text \<open>
  What can happen to an engine: a call of one of the three members of the controller,
  a layout change reported to the resize observer, a visibility change of the
  document, and an animation frame of the browser, which runs the callbacks that are
  waiting for it.
\<close>

datatype event =
    Start ambient
  | Stop
  | Destroy
  | Resize ambient
  | Visibility bool
  | Frame ambient

fun step :: "config \<Rightarrow> event \<Rightarrow> engine \<Rightarrow> engine" where
  "step cfg (Start a) s = start cfg a s"
| "step cfg Stop s = stop s"
| "step cfg Destroy s = destroy s"
| "step cfg (Resize a) s = (if roObserving s then configure cfg a s else s)"
| "step cfg (Visibility hid) s =
     (if visibilityListener s then s\<lparr> pausedByVisibility := hid \<rparr> else s)"
| "step cfg (Frame a) s = fold (\<lambda>_. tick cfg a) (pending s) (s\<lparr> pending := [] \<rparr>)"

definition run :: "config \<Rightarrow> event list \<Rightarrow> engine \<Rightarrow> engine" where
  "run cfg evs s = fold (step cfg) evs s"

text \<open>At most one callback waits, and it is the one the loop handle names.\<close>

definition one_loop :: "engine \<Rightarrow> bool" where
  "one_loop s = (pending s = (case rafId s of None \<Rightarrow> [] | Some h \<Rightarrow> [h]))"

section \<open>Example inputs\<close>

text \<open>The options that \<^verbatim>\<open>main.ts\<close> passes.\<close>

definition main_Options :: Options where
  "main_Options =
    \<lparr> powerPreference = Some ''low-power'', respectReducedMotion = Some True,
      opt_maxDpr = None \<rparr>"

text \<open>
  Answers to a request: granted at every call, refused at every call, refused at the
  first call and granted from the second on.
\<close>

definition always :: "nat \<Rightarrow> bool" where
  "always k = True"

definition never :: "nat \<Rightarrow> bool" where
  "never k = False"

definition after_first :: "nat \<Rightarrow> bool" where
  "after_first k = (0 < k)"

text \<open>
  A host with GPU support that grants an adapter, a device and a canvas context; the
  two arguments are the reduced-motion preference and whether the document is hidden
  at initialisation.  Its products are exact.
\<close>

definition capable_host :: "bool \<Rightarrow> bool \<Rightarrow> host" where
  "capable_host reduced hid =
    \<lparr> gpu_in_navigator = True, requestAdapter_answer = always,
      requestDevice_answer = always, getContext_answer = always,
      matchMedia_is_function = True, reduced_motion_matches = reduced,
      document_hidden = hid, round_double = id \<rparr>"

text \<open>An 800 by 600 surface on a display of pixel ratio 2, read at time \<open>t\<close>.\<close>

definition viewport :: "number \<Rightarrow> ambient" where
  "viewport t = \<lparr> now = t, devicePixelRatio = Some 2, clientWidth = 800, clientHeight = 600 \<rparr>"

text \<open>
  The constants and the state that \<^verbatim>\<open>createBackground\<close> yields on such a host for the
  call of \<^verbatim>\<open>main.ts\<close>, with the identity as the conversion to single precision.
\<close>

definition demo_config :: "bool \<Rightarrow> config" where
  "demo_config reduced =
    \<lparr> descriptor = perlinNoise1 id, maxDpr = 3, shouldAnimate = (\<not> reduced),
      to_double = id \<rparr>"

definition demo_engine :: "bool \<Rightarrow> bool \<Rightarrow> engine" where
  "demo_engine reduced hid =
     configure (demo_config reduced) (viewport 0)
       (initial_engine (perlinNoise1 id) perlinNoise1_defaultParams hid 0)"

text \<open>
  A surface laid out with no area, on a display of pixel ratio 2.  The product 1 times 2
  that \<^verbatim>\<open>configure\<close> forms there is exact in double precision.
\<close>

definition collapsed :: ambient where
  "collapsed = \<lparr> now = 0, devicePixelRatio = Some 2, clientWidth = 0, clientHeight = 0 \<rparr>"

section \<open>Projections of the operations\<close>

lemma sched_configure [simp]:
  "rafId (configure cfg a s) = rafId s" "pending (configure cfg a s) = pending s"
  "nextHandle (configure cfg a s) = nextHandle s" "frames (configure cfg a s) = frames s"
  "mergedParams (configure cfg a s) = mergedParams s"
  "pausedByVisibility (configure cfg a s) = pausedByVisibility s"
  "bufferDestroys (configure cfg a s) = bufferDestroys s"
  "uniformBuffer (configure cfg a s) = uniformBuffer s"
  by (simp_all add: configure_def Let_def)

lemma sched_drawFrame [simp]:
  "rafId (drawFrame cfg t s) = rafId s" "pending (drawFrame cfg t s) = pending s"
  "nextHandle (drawFrame cfg t s) = nextHandle s" "frames (drawFrame cfg t s) = t # frames s"
  "mergedParams (drawFrame cfg t s) = mergedParams s"
  "pausedByVisibility (drawFrame cfg t s) = pausedByVisibility s"
  "bufferDestroys (drawFrame cfg t s) = bufferDestroys s"
  by (simp_all add: drawFrame_def Let_def)

lemma sched_tick [simp]:
  "rafId (tick cfg a s) = Some (nextHandle s)"
  "pending (tick cfg a s) = pending s @ [nextHandle s]"
  "nextHandle (tick cfg a s) = Suc (nextHandle s)"
  "mergedParams (tick cfg a s) = mergedParams s"
  "pausedByVisibility (tick cfg a s) = pausedByVisibility s"
  "bufferDestroys (tick cfg a s) = bufferDestroys s"
  by (simp_all add: tick_def requestAnimationFrame_def Let_def)

lemma tick_paused:
  "pausedByVisibility s \<Longrightarrow>
     tick cfg a s = s\<lparr> pending := pending s @ [nextHandle s],
                       nextHandle := Suc (nextHandle s), rafId := Some (nextHandle s) \<rparr>"
  by (simp add: tick_def requestAnimationFrame_def)

lemma sched_stop [simp]:
  "rafId (stop s) = None"
  "frames (stop s) = frames s" "mergedParams (stop s) = mergedParams s"
  "pausedByVisibility (stop s) = pausedByVisibility s"
  "bufferDestroys (stop s) = bufferDestroys s"
  "nextHandle (stop s) = nextHandle s"
  by (simp_all add: stop_def cancelAnimationFrame_def split: option.split)

lemma stop_idle: "rafId s = None \<Longrightarrow> stop s = s"
  by (simp add: stop_def)

lemma sched_destroy [simp]:
  "rafId (destroy s) = None" "pending (destroy s) = pending (stop s)"
  "frames (destroy s) = frames s" "mergedParams (destroy s) = mergedParams s"
  "pausedByVisibility (destroy s) = pausedByVisibility s"
  "bufferDestroys (destroy s) = Suc (bufferDestroys s)"
  "roObserving (destroy s) = False" "visibilityListener (destroy s) = False"
  by (simp_all add: destroy_def Let_def)

lemma start_running: "rafId s \<noteq> None \<Longrightarrow> start cfg a s = s"
  by (simp add: start_def)

lemma sched_start [simp]:
  "mergedParams (start cfg a s) = mergedParams s"
  "pausedByVisibility (start cfg a s) = pausedByVisibility s"
  "bufferDestroys (start cfg a s) = bufferDestroys s"
  by (simp_all add: start_def requestAnimationFrame_def Let_def)

lemma start_animated:
  "shouldAnimate cfg \<Longrightarrow> rafId s = None \<Longrightarrow>
     rafId (start cfg a s) = Some (nextHandle s) \<and>
     pending (start cfg a s) = pending s @ [nextHandle s] \<and>
     frames (start cfg a s) = frames s"
  by (simp add: start_def requestAnimationFrame_def Let_def)

lemma start_still:
  "\<not> shouldAnimate cfg \<Longrightarrow> rafId s = None \<Longrightarrow>
     rafId (start cfg a s) = None \<and>
     pending (start cfg a s) = pending s \<and>
     frames (start cfg a s) = 0 # frames s"
  by (simp add: start_def Let_def)

lemma one_loop_step: "one_loop s \<Longrightarrow> one_loop (step cfg ev s)"
proof (cases ev)
  case (Start a)
  assume inv: "one_loop s"
  show ?thesis
  proof (cases "rafId s")
    case None
    with inv have p: "pending s = []" by (simp add: one_loop_def)
    show ?thesis
    proof (cases "shouldAnimate cfg")
      case True
      with None p Start start_animated [of cfg s a] show ?thesis
        by (simp add: one_loop_def)
    next
      case False
      with None p Start start_still [of cfg s a] show ?thesis
        by (simp add: one_loop_def)
    qed
  next
    case (Some h)
    with inv Start show ?thesis by (simp add: start_running)
  qed
next
  case Stop
  assume "one_loop s"
  with Stop show ?thesis
    by (auto simp: one_loop_def stop_def cancelAnimationFrame_def split: option.splits)
next
  case Destroy
  assume "one_loop s"
  with Destroy show ?thesis
    by (auto simp: one_loop_def stop_def cancelAnimationFrame_def split: option.splits)
next
  case (Resize a)
  assume "one_loop s"
  with Resize show ?thesis by (simp add: one_loop_def)
next
  case (Visibility hid)
  assume "one_loop s"
  with Visibility show ?thesis by (simp add: one_loop_def)
next
  case (Frame a)
  assume "one_loop s"
  with Frame show ?thesis
    by (cases "rafId s") (simp_all add: one_loop_def)
qed

lemma one_loop_run: "one_loop s \<Longrightarrow> one_loop (run cfg evs s)"
  unfolding run_def by (induction evs arbitrary: s) (simp_all add: one_loop_step)

lemma one_loop_initial: "one_loop (configure cfg a (initial_engine desc m hid t))"
  by (simp add: one_loop_def initial_engine_def)

lemma createBackground_Inr:
  "createBackground fr hst a n p opts = Inr (cfg, s0) \<Longrightarrow>
     s0 = configure cfg a (initial_engine (descriptor cfg) (spread (defaultParams (descriptor cfg)) p)
            (document_hidden hst) (now a))"
  by (auto simp: createBackground_def Let_def split: if_splits)

lemma one_loop_created:
  "createBackground fr hst a n p opts = Inr (cfg, s0) \<Longrightarrow> one_loop s0"
  by (drule createBackground_Inr) (simp add: one_loop_initial)

lemma still_step:
  "\<not> shouldAnimate cfg \<Longrightarrow> rafId s = None \<and> pending s = [] \<Longrightarrow>
     rafId (step cfg ev s) = None \<and> pending (step cfg ev s) = []"
  by (cases ev) (simp_all add: start_still stop_idle)

lemma still_run:
  "\<not> shouldAnimate cfg \<Longrightarrow> rafId s = None \<and> pending s = [] \<Longrightarrow>
     rafId (run cfg evs s) = None \<and> pending (run cfg evs s) = []"
  unfolding run_def
proof (induction evs arbitrary: s)
  case Nil
  then show ?case by simp
next
  case (Cons ev evs)
  from Cons.prems have "rafId (step cfg ev s) = None \<and> pending (step cfg ev s) = []"
    by (rule still_step)
  with Cons.IH [OF Cons.prems(1)] show ?case by simp
qed

section \<open>Executions and the example engine\<close>

lemma run_Nil [simp]: "run cfg [] s = s"
  by (simp add: run_def)

lemma run_Cons [simp]: "run cfg (ev # evs) s = run cfg evs (step cfg ev s)"
  by (simp add: run_def)

lemma created_demo:
  "createBackground id (capable_host reduced hid) (viewport 0) PerlinNoise1 Map.empty main_Options
     = Inr (demo_config reduced, demo_engine reduced hid)"
  by (simp add: createBackground_def capable_host_def always_def main_Options_def nullish_def
      spread_def demo_config_def demo_engine_def viewport_def perlinNoise1_def Let_def)

lemma demo_facts [simp]:
  "shouldAnimate (demo_config reduced) = (\<not> reduced)"
  "maxDpr (demo_config reduced) = 3"
  "to_double (demo_config reduced) = id"
  "rafId (demo_engine reduced hid) = None"
  "pending (demo_engine reduced hid) = []"
  "frames (demo_engine reduced hid) = []"
  "nextHandle (demo_engine reduced hid) = 1"
  "pausedByVisibility (demo_engine reduced hid) = hid"
  "bufferDestroys (demo_engine reduced hid) = 0"
  by (simp_all add: demo_config_def demo_engine_def initial_engine_def)

section \<open>The controller and the live parameters\<close>

lemma mergedParams_step: "mergedParams (step cfg ev s) = mergedParams s"
proof (cases ev)
  case (Frame a)
  have "mergedParams (fold (\<lambda>_. tick cfg a) hs t) = mergedParams t" for hs :: "nat list" and t
    by (induction hs arbitrary: t) simp_all
  with Frame show ?thesis by simp
qed simp_all

lemma mergedParams_run: "mergedParams (run cfg evs s) = mergedParams s"
  by (induction evs arbitrary: s) (simp_all add: mergedParams_step)

text \<open>
  Claim C1 says that the controller returned by \<^verbatim>\<open>createBackground\<close> exposes the live
  parameter mapping next to \<open>start\<close>, \<open>stop\<close> and \<open>destroy\<close>, so that an external
  mutation is read by the next frame.  The render operation does read the mapping of
  the state at every frame, but the returned object has exactly the three members:
  reading \<^verbatim>\<open>params\<close> from it gives \<^verbatim>\<open>undefined\<close>, and nothing that can happen to the
  engine changes the mapping merged at initialisation.
\<close>

theorem controller_has_no_params:
  "dom Controller = {''start'', ''stop'', ''destroy''}
   \<and> Controller ''params'' = None
   \<and> mergedParams (run cfg evs s) = mergedParams s
   \<and> uniformBuffer (drawFrame cfg t s) =
       writeUniforms (descriptor cfg) (uniformData s) t (width s) (height s) (dpr s) (mergedParams s)"
  by (auto simp: Controller_def mergedParams_run drawFrame_def Let_def)

section \<open>Teardown\<close>

lemma bufferDestroys_funpow: "bufferDestroys ((destroy ^^ n) s) = bufferDestroys s + n"
  by (induction n) simp_all

text \<open>
  Claim C3, as amended: \<open>destroy\<close> is not guarded.  One call stops the loop, detaches
  the resize observer and the visibility listener and releases the uniform buffer
  once; every further call releases the buffer again, so \<open>n\<close> calls release it \<open>n\<close>
  times.
\<close>

theorem destroy_releases_every_call:
  "rafId (destroy s) = None \<and> pending (destroy s) = pending (stop s)
   \<and> \<not> roObserving (destroy s) \<and> \<not> visibilityListener (destroy s)
   \<and> bufferDestroys (destroy s) = bufferDestroys s + 1
   \<and> bufferDestroys ((destroy ^^ n) s) = bufferDestroys s + n"
  by (simp add: bufferDestroys_funpow)

text \<open>
  Claim C3 as stated fails: on the engine that \<^verbatim>\<open>main.ts\<close> creates, two calls of
  \<open>destroy\<close> release the uniform buffer twice.
\<close>

theorem destroy_twice_counterexample:
  "bufferDestroys (run (demo_config False) [Destroy, Destroy] (demo_engine False False)) = 2"
  by simp

section \<open>Starting twice\<close>

lemma start_start: "shouldAnimate cfg \<Longrightarrow> start cfg a' (start cfg a s) = start cfg a s"
proof (cases "rafId s")
  case None
  assume "shouldAnimate cfg"
  with None have "rafId (start cfg a s) \<noteq> None" by (simp add: start_animated)
  then show ?thesis by (rule start_running)
next
  case (Some h)
  then show ?thesis by (simp add: start_running)
qed

lemma one_loop_pending: "one_loop s \<Longrightarrow> length (pending s) \<le> 1"
  by (simp add: one_loop_def split: option.splits)

text \<open>
  Claim C6, as amended: in every state reached from initialisation, \<open>start\<close> is a
  no-op when the loop handle is set; on an engine with animation enabled, calling
  \<open>start\<close> twice in a row gives the same state as calling it once; and in either mode
  at most one frame callback is ever waiting.
\<close>

theorem start_idempotent_when_animated:
  assumes "createBackground fr hst a0 n p opts = Inr (cfg, s0)"
  shows "(rafId (run cfg evs s0) \<noteq> None \<longrightarrow> start cfg a (run cfg evs s0) = run cfg evs s0)
       \<and> (shouldAnimate cfg \<longrightarrow>
            start cfg a' (start cfg a (run cfg evs s0)) = start cfg a (run cfg evs s0))
       \<and> length (pending (run cfg evs s0)) \<le> 1"
proof -
  from assms have "one_loop s0" by (rule one_loop_created)
  then have "one_loop (run cfg evs s0)" by (rule one_loop_run)
  then have "length (pending (run cfg evs s0)) \<le> 1" by (rule one_loop_pending)
  then show ?thesis by (simp add: start_running start_start)
qed

theorem start_idempotent_when_animated_witness:
  "createBackground id (capable_host False False) (viewport 0) PerlinNoise1 Map.empty main_Options
     = Inr (demo_config False, demo_engine False False)
   \<and> shouldAnimate (demo_config False)
   \<and> rafId (run (demo_config False) [Start (viewport 1)] (demo_engine False False)) \<noteq> None
   \<and> start (demo_config False) (viewport 2)
        (run (demo_config False) [Start (viewport 1)] (demo_engine False False))
      = run (demo_config False) [Start (viewport 1)] (demo_engine False False)
   \<and> start (demo_config False) (viewport 3)
        (start (demo_config False) (viewport 2) (demo_engine False False))
      = start (demo_config False) (viewport 2) (demo_engine False False)
   \<and> length (pending (run (demo_config False) [Start (viewport 1), Frame (viewport 2)]
        (demo_engine False False))) \<le> 1"
proof -
  have c: "createBackground id (capable_host False False) (viewport 0) PerlinNoise1 Map.empty
      main_Options = Inr (demo_config False, demo_engine False False)"
    by (rule created_demo)
  have r: "rafId (run (demo_config False) [Start (viewport 1)] (demo_engine False False)) \<noteq> None"
    by (simp add: start_animated)
  have a: "shouldAnimate (demo_config False)" by simp
  from start_idempotent_when_animated [OF c, of "[Start (viewport 1)]" "viewport 2"] r
  have 1: "start (demo_config False) (viewport 2)
        (run (demo_config False) [Start (viewport 1)] (demo_engine False False))
      = run (demo_config False) [Start (viewport 1)] (demo_engine False False)"
    by blast
  from start_idempotent_when_animated [OF c, of "[]" "viewport 2" "viewport 3"] a
  have 2: "start (demo_config False) (viewport 3)
        (start (demo_config False) (viewport 2) (demo_engine False False))
      = start (demo_config False) (viewport 2) (demo_engine False False)"
    by simp
  from start_idempotent_when_animated [OF c, of "[Start (viewport 1), Frame (viewport 2)]"]
  have 3: "length (pending (run (demo_config False) [Start (viewport 1), Frame (viewport 2)]
        (demo_engine False False))) \<le> 1"
    by blast
  from c a r 1 2 3 show ?thesis by blast
qed

text \<open>
  Claim C6 as stated fails on an engine created under a reduced-motion preference:
  one call of \<open>start\<close> submits one frame, two calls in a row submit two.
\<close>

theorem start_twice_still_counterexample:
  "frames (run (demo_config True) [Start (viewport 0)] (demo_engine True False)) = [0]
   \<and> frames (run (demo_config True) [Start (viewport 0), Start (viewport 0)]
        (demo_engine True False)) = [0, 0]"
  by (simp add: start_still)

section \<open>Reduced motion\<close>

text \<open>
  Claim C9: when animation is disabled at construction, the loop handle is \<open>None\<close> in
  every state reached from initialisation and no callback waits; \<open>stop\<close> changes
  nothing; and every call of \<open>start\<close> passes its guard, schedules nothing and renders
  one frame at time 0.
\<close>

theorem reduced_motion_never_schedules:
  assumes "createBackground fr hst a0 n p opts = Inr (cfg, s0)" and "\<not> shouldAnimate cfg"
  shows "rafId (run cfg evs s0) = None \<and> pending (run cfg evs s0) = []
       \<and> stop (run cfg evs s0) = run cfg evs s0
       \<and> rafId (start cfg a (run cfg evs s0)) = None
       \<and> pending (start cfg a (run cfg evs s0)) = []
       \<and> frames (start cfg a (run cfg evs s0)) = 0 # frames (run cfg evs s0)"
proof -
  from assms(1) have "s0 = configure cfg a0 (initial_engine (descriptor cfg)
      (spread (defaultParams (descriptor cfg)) p) (document_hidden hst) (now a0))"
    by (rule createBackground_Inr)
  then have "rafId s0 = None \<and> pending s0 = []" by (simp add: initial_engine_def)
  with assms(2) have i: "rafId (run cfg evs s0) = None \<and> pending (run cfg evs s0) = []"
    by (rule still_run)
  with assms(2) show ?thesis by (simp add: stop_idle start_still)
qed

theorem reduced_motion_never_schedules_witness:
  "createBackground id (capable_host True False) (viewport 0) PerlinNoise1 Map.empty main_Options
     = Inr (demo_config True, demo_engine True False)
   \<and> \<not> shouldAnimate (demo_config True)
   \<and> rafId (run (demo_config True) [Start (viewport 1), Frame (viewport 2), Stop]
        (demo_engine True False)) = None
   \<and> frames (start (demo_config True) (viewport 3)
        (run (demo_config True) [Start (viewport 1), Frame (viewport 2), Stop]
           (demo_engine True False)))
      = [0, 0]"
proof -
  have c: "createBackground id (capable_host True False) (viewport 0) PerlinNoise1 Map.empty
      main_Options = Inr (demo_config True, demo_engine True False)"
    by (rule created_demo)
  have a: "\<not> shouldAnimate (demo_config True)" by simp
  have f: "frames (run (demo_config True) [Start (viewport 1), Frame (viewport 2), Stop]
      (demo_engine True False)) = [0]"
    by (simp add: start_still stop_idle)
  from reduced_motion_never_schedules [OF c a,
      of "[Start (viewport 1), Frame (viewport 2), Stop]" "viewport 3"] c a f
  show ?thesis by simp
qed

section \<open>Surface configuration\<close>

lemma floor_whole: "x \<in> \<int> \<Longrightarrow> Math_floor x = x"
  by (auto simp: Math_floor_def elim: Ints_cases)

lemma floor_below_one: "0 \<le> x \<Longrightarrow> x < 1 \<Longrightarrow> Math_floor x = 0"
  by (simp add: Math_floor_def floor_eq_iff)

lemma one_le_floor: "1 \<le> x \<Longrightarrow> 1 \<le> Math_floor x"
  by (simp add: Math_floor_def le_floor_iff)

lemma configure_fields:
  "dpr (configure cfg a s) = max 1 (min (maxDpr cfg) (js_or (devicePixelRatio a) 1))"
  "width (configure cfg a s) =
     max 1 (Math_floor (to_double cfg
       (max 1 (Math_floor (clientWidth a)) * dpr (configure cfg a s))))"
  "height (configure cfg a s) =
     max 1 (Math_floor (to_double cfg
       (max 1 (Math_floor (clientHeight a)) * dpr (configure cfg a s))))"
  "canvasWidth (configure cfg a s) = width (configure cfg a s)"
  "canvasHeight (configure cfg a s) = height (configure cfg a s)"
  by (simp_all add: configure_def Let_def)

lemma px_whole:
  assumes "x \<in> \<int>" "1 \<le> x"
  shows "max 1 (Math_floor (rd (max 1 (Math_floor x) * d))) = max 1 (Math_floor (rd (x * d)))"
  using assms by (simp add: floor_whole max_def)

lemma px_small:
  assumes "0 \<le> x" "x < 1"
  shows "max 1 (Math_floor (rd (max 1 (Math_floor x) * d))) = max 1 (Math_floor (rd d))"
  using assms by (simp add: floor_below_one)

text \<open>
  Claim C2, as amended: for every positive device-pixel-ratio hint, \<open>configure\<close> sets
  \<open>dpr\<close> to the hint clamped to \<open>[1, maxDpr]\<close> and both pixel sizes to at least 1; for
  every whole logical width (height) of at least 1 the pixel width (height) is the
  floor of the product \<open>logical * dpr\<close> as the host's multiplication rounds it to a
  double, floored to a minimum of 1; a logical size below 1, such as 0, is raised to 1
  before the multiplication and so yields the floor of \<open>dpr\<close> as rounded, which is
  \<open>floor dpr\<close> itself when \<open>dpr\<close> is a double.
\<close>

theorem configure_pixel_size:
  assumes "devicePixelRatio a = Some r" and "0 < r"
  shows "dpr (configure cfg a s) = max 1 (min (maxDpr cfg) r)
     \<and> 1 \<le> width (configure cfg a s) \<and> 1 \<le> height (configure cfg a s)
     \<and> (clientWidth a \<in> \<int> \<and> 1 \<le> clientWidth a \<longrightarrow>
          width (configure cfg a s) =
            max 1 (Math_floor (to_double cfg (clientWidth a * dpr (configure cfg a s)))))
     \<and> (clientHeight a \<in> \<int> \<and> 1 \<le> clientHeight a \<longrightarrow>
          height (configure cfg a s) =
            max 1 (Math_floor (to_double cfg (clientHeight a * dpr (configure cfg a s)))))
     \<and> (0 \<le> clientWidth a \<and> clientWidth a < 1 \<longrightarrow>
          width (configure cfg a s) =
            max 1 (Math_floor (to_double cfg (dpr (configure cfg a s)))))
     \<and> (0 \<le> clientHeight a \<and> clientHeight a < 1 \<longrightarrow>
          height (configure cfg a s) =
            max 1 (Math_floor (to_double cfg (dpr (configure cfg a s)))))
     \<and> (to_double cfg (dpr (configure cfg a s)) = dpr (configure cfg a s) \<longrightarrow>
          max 1 (Math_floor (to_double cfg (dpr (configure cfg a s)))) =
            Math_floor (dpr (configure cfg a s)))"
proof -
  let ?c = "configure cfg a s"
  have d: "dpr ?c = max 1 (min (maxDpr cfg) r)"
    using assms by (simp add: configure_fields js_or_def)
  have d1: "1 \<le> dpr ?c" by (simp add: configure_fields)
  have w1: "1 \<le> width ?c" by (simp add: configure_fields(2))
  have h1: "1 \<le> height ?c" by (simp add: configure_fields(3))
  have ww: "width ?c = max 1 (Math_floor (to_double cfg (clientWidth a * dpr ?c)))"
    if "clientWidth a \<in> \<int>" "1 \<le> clientWidth a"
    using px_whole [OF that, of "to_double cfg" "dpr ?c"] by (simp add: configure_fields(2))
  have hw: "height ?c = max 1 (Math_floor (to_double cfg (clientHeight a * dpr ?c)))"
    if "clientHeight a \<in> \<int>" "1 \<le> clientHeight a"
    using px_whole [OF that, of "to_double cfg" "dpr ?c"] by (simp add: configure_fields(3))
  have ws: "width ?c = max 1 (Math_floor (to_double cfg (dpr ?c)))"
    if "0 \<le> clientWidth a" "clientWidth a < 1"
    using px_small [OF that, of "to_double cfg" "dpr ?c"] by (simp add: configure_fields(2))
  have hs: "height ?c = max 1 (Math_floor (to_double cfg (dpr ?c)))"
    if "0 \<le> clientHeight a" "clientHeight a < 1"
    using px_small [OF that, of "to_double cfg" "dpr ?c"] by (simp add: configure_fields(3))
  have e: "max 1 (Math_floor (to_double cfg (dpr ?c))) = Math_floor (dpr ?c)"
    if "to_double cfg (dpr ?c) = dpr ?c"
    using one_le_floor [OF d1] that by (simp add: max_def)
  from d w1 h1 ww hw ws hs e show ?thesis by blast
qed

theorem configure_pixel_size_witness:
  "devicePixelRatio (viewport 0) = Some 2 \<and> (0::real) < 2
   \<and> clientWidth (viewport 0) \<in> \<int> \<and> 1 \<le> clientWidth (viewport 0)
   \<and> 0 \<le> clientHeight collapsed \<and> clientHeight collapsed < 1
   \<and> to_double (demo_config False) 2 = 2
   \<and> dpr (configure (demo_config False) (viewport 0) (demo_engine False False)) = 2
   \<and> width (configure (demo_config False) (viewport 0) (demo_engine False False)) = 1600
   \<and> height (configure (demo_config False) collapsed (demo_engine False False)) = 2"
proof -
  have v: "devicePixelRatio (viewport 0) = Some 2" "clientWidth (viewport 0) = 800"
    by (simp_all add: viewport_def)
  have k: "devicePixelRatio collapsed = Some 2" "clientHeight collapsed = 0"
    by (simp_all add: collapsed_def)
  have p: "(0::real) < 2" by simp
  have i: "clientWidth (viewport 0) \<in> \<int>" "1 \<le> clientWidth (viewport 0)"
    by (simp_all add: v)
  have t: "to_double (demo_config False) 2 = 2" by simp
  from configure_pixel_size [OF v(1) p, of "demo_config False" "demo_engine False False"] i
  have 1: "dpr (configure (demo_config False) (viewport 0) (demo_engine False False)) = 2
     \<and> width (configure (demo_config False) (viewport 0) (demo_engine False False)) = 1600"
    by (simp add: v Math_floor_def)
  from configure_pixel_size [OF k(1) p, of "demo_config False" "demo_engine False False"]
  have 2: "height (configure (demo_config False) collapsed (demo_engine False False)) = 2"
    by (simp add: k Math_floor_def)
  from v k p i t 1 2 show ?thesis by simp
qed

text \<open>
  Claim C2 as stated fails: with a logical size of 0 and a pixel ratio of 2 the pixel
  size is 2, not 1.
\<close>

theorem configure_zero_size_counterexample:
  "clientWidth collapsed = 0 \<and> clientHeight collapsed = 0
   \<and> dpr (configure (demo_config False) collapsed (demo_engine False False)) = 2
   \<and> width (configure (demo_config False) collapsed (demo_engine False False)) = 2
   \<and> height (configure (demo_config False) collapsed (demo_engine False False)) = 2"
  by (simp add: configure_def collapsed_def js_or_def Math_floor_def Let_def)

text \<open>
  Claim C10: when the device-pixel-ratio hint is absent or zero, \<open>configure\<close> puts 1 in
  its place before clamping, and the resulting \<open>dpr\<close> is 1 (so at least 1) whatever
  \<open>maxDpr\<close> is.
\<close>

theorem configure_falsy_ratio:
  assumes "devicePixelRatio a = None \<or> devicePixelRatio a = Some 0"
  shows "js_or (devicePixelRatio a) 1 = 1
       \<and> dpr (configure cfg a s) = max 1 (min (maxDpr cfg) 1)
       \<and> dpr (configure cfg a s) = 1"
  using assms by (auto simp: configure_fields js_or_def)

theorem configure_falsy_ratio_witness:
  "devicePixelRatio ((viewport 0)\<lparr> devicePixelRatio := None \<rparr>) = None
   \<and> dpr (configure (demo_config False) ((viewport 0)\<lparr> devicePixelRatio := None \<rparr>)
        (demo_engine False False)) = 1
   \<and> devicePixelRatio ((viewport 0)\<lparr> devicePixelRatio := Some 0 \<rparr>) = Some 0
   \<and> dpr (configure (demo_config False) ((viewport 0)\<lparr> devicePixelRatio := Some 0 \<rparr>)
        (demo_engine False False)) = 1"
  using configure_falsy_ratio [of "(viewport 0)\<lparr> devicePixelRatio := None \<rparr>"
      "demo_config False" "demo_engine False False"]
    configure_falsy_ratio [of "(viewport 0)\<lparr> devicePixelRatio := Some 0 \<rparr>"
      "demo_config False" "demo_engine False False"]
  by simp

section \<open>Initialisation failures\<close>

text \<open>
  Claim C4, as amended: \<^verbatim>\<open>createBackground\<close> fails, by failing the call itself, when
  \<^verbatim>\<open>navigator.gpu\<close> is missing, when the request for an adapter yields none, and
  when the canvas gives no context; each request is made once and its first answer
  decides, whatever a later call would answer.  These three are the cases the code
  checks, not the only failures: the call also fails when \<^verbatim>\<open>requestDevice\<close> rejects.
\<close>

theorem createBackground_failures:
  "(\<not> gpu_in_navigator hst \<longrightarrow>
      createBackground fr hst a n p opts = Inl UnsupportedPlatform)
   \<and> (gpu_in_navigator hst \<and> \<not> requestAdapter_answer hst 0 \<longrightarrow>
      createBackground fr hst a n p opts = Inl NoAdapter)
   \<and> (gpu_in_navigator hst \<and> requestAdapter_answer hst 0 \<and> \<not> requestDevice_answer hst 0 \<longrightarrow>
      createBackground fr hst a n p opts = Inl DeviceRequestRejected)
   \<and> (gpu_in_navigator hst \<and> requestAdapter_answer hst 0 \<and> requestDevice_answer hst 0
        \<and> \<not> getContext_answer hst 0 \<longrightarrow>
      createBackground fr hst a n p opts = Inl SurfaceUnavailable)
   \<and> (\<not> gpu_in_navigator hst \<or> \<not> requestAdapter_answer hst 0 \<or> \<not> getContext_answer hst 0 \<longrightarrow>
      isl (createBackground fr hst a n p opts))"
  by (simp add: createBackground_def Let_def)

theorem createBackground_failures_witness:
  "\<not> gpu_in_navigator ((capable_host False False)\<lparr> gpu_in_navigator := False \<rparr>)
   \<and> createBackground id ((capable_host False False)\<lparr> gpu_in_navigator := False \<rparr>)
        (viewport 0) PerlinNoise1 Map.empty main_Options = Inl UnsupportedPlatform
   \<and> \<not> requestAdapter_answer ((capable_host False False)\<lparr> requestAdapter_answer := after_first \<rparr>) 0
   \<and> requestAdapter_answer ((capable_host False False)\<lparr> requestAdapter_answer := after_first \<rparr>) 1
   \<and> createBackground id ((capable_host False False)\<lparr> requestAdapter_answer := after_first \<rparr>)
        (viewport 0) PerlinNoise1 Map.empty main_Options = Inl NoAdapter
   \<and> \<not> getContext_answer ((capable_host False False)\<lparr> getContext_answer := after_first \<rparr>) 0
   \<and> getContext_answer ((capable_host False False)\<lparr> getContext_answer := after_first \<rparr>) 1
   \<and> createBackground id ((capable_host False False)\<lparr> getContext_answer := after_first \<rparr>)
        (viewport 0) PerlinNoise1 Map.empty main_Options = Inl SurfaceUnavailable
   \<and> isl (createBackground id
        ((capable_host False False)\<lparr> requestDevice_answer := never, getContext_answer := never \<rparr>)
        (viewport 0) PerlinNoise1 Map.empty main_Options)"
  using
    createBackground_failures [of "(capable_host False False)\<lparr> gpu_in_navigator := False \<rparr>"
      id "viewport 0" PerlinNoise1 Map.empty main_Options]
    createBackground_failures [of "(capable_host False False)\<lparr> requestAdapter_answer := after_first \<rparr>"
      id "viewport 0" PerlinNoise1 Map.empty main_Options]
    createBackground_failures [of "(capable_host False False)\<lparr> getContext_answer := after_first \<rparr>"
      id "viewport 0" PerlinNoise1 Map.empty main_Options]
    createBackground_failures [of
      "(capable_host False False)\<lparr> requestDevice_answer := never, getContext_answer := never \<rparr>"
      id "viewport 0" PerlinNoise1 Map.empty main_Options]
  by (simp add: capable_host_def always_def never_def after_first_def)

text \<open>
  Claim C4 as stated fails: on a host with GPU support that grants an adapter and a
  canvas context, the call still fails when \<^verbatim>\<open>requestDevice\<close> rejects, so the three
  cases are not the only ones.
\<close>

theorem createBackground_device_rejected_counterexample:
  "gpu_in_navigator ((capable_host False False)\<lparr> requestDevice_answer := never \<rparr>)
   \<and> requestAdapter_answer ((capable_host False False)\<lparr> requestDevice_answer := never \<rparr>) 0
   \<and> getContext_answer ((capable_host False False)\<lparr> requestDevice_answer := never \<rparr>) 0
   \<and> createBackground id ((capable_host False False)\<lparr> requestDevice_answer := never \<rparr>)
        (viewport 0) PerlinNoise1 Map.empty main_Options = Inl DeviceRequestRejected"
  by (simp add: createBackground_def capable_host_def always_def never_def Let_def)

section \<open>Merging the parameter overrides\<close>

text \<open>
  Claim C8: the live mapping is the overrides spread over the descriptor's defaults.
  Every key of the overrides reads back the override, every other key keeps its
  default; in particular \<^verbatim>\<open>{speed: 0.3}\<close> over any defaults reads back 0.3 at
  \<^verbatim>\<open>speed\<close> and the default everywhere else.
\<close>

theorem mergedParams_roundtrip:
  assumes "createBackground fr hst a n ov opts = Inr (cfg, s0)"
  shows "mergedParams s0 = spread (defaultParams (descriptor cfg)) ov
     \<and> (\<forall>k. k \<in> dom ov \<longrightarrow> mergedParams s0 k = ov k)
     \<and> (\<forall>k. k \<notin> dom ov \<longrightarrow> mergedParams s0 k = defaultParams (descriptor cfg) k)
     \<and> spread d [''speed'' \<mapsto> 0.3] ''speed'' = Some 0.3
     \<and> (\<forall>k. k \<noteq> ''speed'' \<longrightarrow> spread d [''speed'' \<mapsto> 0.3] k = d k)"
proof -
  from assms have "s0 = configure cfg a (initial_engine (descriptor cfg)
      (spread (defaultParams (descriptor cfg)) ov) (document_hidden hst) (now a))"
    by (rule createBackground_Inr)
  then have m: "mergedParams s0 = spread (defaultParams (descriptor cfg)) ov"
    by (simp add: initial_engine_def)
  show ?thesis
    unfolding m by (auto simp: spread_def map_add_def split: option.splits)
qed

theorem mergedParams_roundtrip_witness:
  "createBackground id (capable_host False False) (viewport 0) PerlinNoise1
       [''speed'' \<mapsto> 0.3] main_Options
     = Inr (demo_config False,
            (demo_engine False False)\<lparr> mergedParams := perlinNoise1_defaultParams(''speed'' \<mapsto> 0.3) \<rparr>)
   \<and> ''speed'' \<in> dom [''speed'' \<mapsto> (0.3::real)]
   \<and> ''baseR'' \<notin> dom [''speed'' \<mapsto> (0.3::real)]
   \<and> mergedParams ((demo_engine False False)\<lparr> mergedParams := perlinNoise1_defaultParams(''speed'' \<mapsto> 0.3) \<rparr>)
        ''speed'' = Some 0.3
   \<and> mergedParams ((demo_engine False False)\<lparr> mergedParams := perlinNoise1_defaultParams(''speed'' \<mapsto> 0.3) \<rparr>)
        ''baseR'' = defaultParams (descriptor (demo_config False)) ''baseR''
   \<and> defaultParams (descriptor (demo_config False)) ''baseR'' = Some 0.06"
proof -
  have c: "createBackground id (capable_host False False) (viewport 0) PerlinNoise1
       [''speed'' \<mapsto> 0.3] main_Options
     = Inr (demo_config False,
            (demo_engine False False)\<lparr> mergedParams := perlinNoise1_defaultParams(''speed'' \<mapsto> 0.3) \<rparr>)"
    by (simp add: createBackground_def capable_host_def always_def main_Options_def nullish_def
      spread_def demo_config_def demo_engine_def viewport_def perlinNoise1_def
      initial_engine_def configure_def Let_def)
  have d: "''speed'' \<in> dom [''speed'' \<mapsto> (0.3::real)]" "''baseR'' \<notin> dom [''speed'' \<mapsto> (0.3::real)]"
    by simp_all
  have b: "defaultParams (descriptor (demo_config False)) ''baseR'' = Some 0.06"
    by (simp add: demo_config_def perlinNoise1_def perlinNoise1_defaultParams_def)
  from mergedParams_roundtrip [OF c] d b show ?thesis
    using c by simp
qed

section \<open>Ticks while the document is hidden\<close>

lemma tick_procedural_paused:
  "pausedByVisibility s \<Longrightarrow> tick_procedural draw a s = tick cfg a s"
  by (simp add: tick_procedural_def tick_def)

lemma tick_procedural_drawFrame: "tick_procedural (drawFrame cfg) a s = tick cfg a s"
  by (simp add: tick_procedural_def tick_def Let_def)

lemma frame_paused:
  assumes "pausedByVisibility s" and "pending s = [h]"
  shows "step cfg (Frame a) s =
     s\<lparr> pending := [nextHandle s], nextHandle := Suc (nextHandle s), rafId := Some (nextHandle s) \<rparr>"
  using assms by (simp add: tick_paused)

lemma frames_paused:
  "pausedByVisibility s \<Longrightarrow> rafId s = Some h \<Longrightarrow> pending s = [h] \<Longrightarrow>
     frames (run cfg (map Frame as) s) = frames s
   \<and> uniformBuffer (run cfg (map Frame as) s) = uniformBuffer s
   \<and> pausedByVisibility (run cfg (map Frame as) s)
   \<and> nextHandle (run cfg (map Frame as) s) = nextHandle s + length as
   \<and> (\<exists>h'. rafId (run cfg (map Frame as) s) = Some h' \<and> pending (run cfg (map Frame as) s) = [h'])"
proof (induction as arbitrary: s h)
  case Nil
  then show ?case by simp
next
  case (Cons a as)
  let ?t = "step cfg (Frame a) s"
  have t: "?t = s\<lparr> pending := [nextHandle s], nextHandle := Suc (nextHandle s),
                    rafId := Some (nextHandle s) \<rparr>"
    using Cons.prems(1,3) by (rule frame_paused)
  have p: "pausedByVisibility ?t" and r: "rafId ?t = Some (nextHandle s)"
    and q: "pending ?t = [nextHandle s]"
    unfolding t using Cons.prems(1) by simp_all
  have f: "frames ?t = frames s" "uniformBuffer ?t = uniformBuffer s"
    "nextHandle ?t = Suc (nextHandle s)"
    unfolding t by simp_all
  have u: "run cfg (map Frame (a # as)) s = run cfg (map Frame as) ?t"
    by (simp del: step.simps)
  from Cons.IH [OF p r q] show ?case
    unfolding u f by simp
qed

text \<open>
  Claim C5: in a running state with \<open>pausedByVisibility\<close> set, the frame callback
  submits nothing and schedules itself again, in both versions of the callback; over
  any number of consecutive animation frames no frame is submitted, the uniform
  buffer is untouched, every frame schedules exactly one new callback, and a callback
  is waiting at the end.
\<close>

theorem hidden_ticks_reschedule_without_render:
  assumes "pausedByVisibility s" and "rafId s = Some h" and "pending s = [h]"
  shows "tick_procedural draw a s = tick cfg a s
       \<and> frames (tick cfg a s) = frames s
       \<and> uniformBuffer (tick cfg a s) = uniformBuffer s
       \<and> rafId (tick cfg a s) = Some (nextHandle s)
       \<and> nextHandle s \<in> set (pending (tick cfg a s))
       \<and> frames (run cfg (map Frame as) s) = frames s
       \<and> uniformBuffer (run cfg (map Frame as) s) = uniformBuffer s
       \<and> pausedByVisibility (run cfg (map Frame as) s)
       \<and> nextHandle (run cfg (map Frame as) s) = nextHandle s + length as
       \<and> (\<exists>h'. rafId (run cfg (map Frame as) s) = Some h'
                \<and> pending (run cfg (map Frame as) s) = [h'])"
proof -
  have "frames (tick cfg a s) = frames s \<and> uniformBuffer (tick cfg a s) = uniformBuffer s"
    using assms(1) by (simp add: tick_paused)
  with frames_paused [OF assms, of cfg as] tick_procedural_paused [OF assms(1), of draw a cfg]
  show ?thesis by simp
qed

theorem hidden_ticks_reschedule_without_render_witness:
  "pausedByVisibility (start (demo_config False) (viewport 1) (demo_engine False True))
   \<and> rafId (start (demo_config False) (viewport 1) (demo_engine False True)) = Some 1
   \<and> pending (start (demo_config False) (viewport 1) (demo_engine False True)) = [1]
   \<and> frames (run (demo_config False) (map Frame [viewport 2, viewport 3])
        (start (demo_config False) (viewport 1) (demo_engine False True))) = []
   \<and> nextHandle (run (demo_config False) (map Frame [viewport 2, viewport 3])
        (start (demo_config False) (viewport 1) (demo_engine False True))) = 4
   \<and> rafId (run (demo_config False) (map Frame [viewport 2, viewport 3])
        (start (demo_config False) (viewport 1) (demo_engine False True))) \<noteq> None"
proof -
  let ?s = "start (demo_config False) (viewport 1) (demo_engine False True)"
  have p: "pausedByVisibility ?s" by simp
  have r: "rafId ?s = Some 1" and q: "pending ?s = [1]" and f: "frames ?s = []"
    and n: "nextHandle ?s = 2"
    by (simp_all add: start_def requestAnimationFrame_def Let_def)
  from hidden_ticks_reschedule_without_render [OF p r q, of _ "viewport 2" "demo_config False"
      "[viewport 2, viewport 3]"] p r q f n
  show ?thesis by auto
qed

section \<open>The uniform layout of \<open>perlinNoise1\<close>\<close>

lemma f32_set_Cons_0: "f32_set fr (x # xs) 0 v = map_option fr v # xs"
  by (simp add: f32_set_def)

lemma f32_set_Cons_Suc: "f32_set fr (x # xs) (Suc i) v = x # f32_set fr xs i v"
  by (simp add: f32_set_def)

lemma nth_f32_set_other: "i \<noteq> j \<Longrightarrow> f32_set fr buf i v ! j = buf ! j"
  by (simp add: f32_set_def)

lemma perlinNoise1_padding_kept:
  "perlinNoise1_writeUniforms fr buf t w h d p ! 14 = buf ! 14
   \<and> perlinNoise1_writeUniforms fr buf t w h d p ! 15 = buf ! 15"
  by (simp add: perlinNoise1_writeUniforms_def Let_def nth_f32_set_other)

lemma new_Float32Array_16:
  "new_Float32Array 16 =
     [Some 0, Some 0, Some 0, Some 0, Some 0, Some 0, Some 0, Some 0,
      Some 0, Some 0, Some 0, Some 0, Some 0, Some 0, Some 0, Some 0]"
  by (simp add: new_Float32Array_def eval_nat_numeral)

text \<open>
  Claim C7: for \<open>perlinNoise1\<close>, whose \<open>uniformFloats\<close> is 16, \<open>writeUniforms\<close> on a
  zero-filled buffer at time 1, width 800, height 600 and pixel ratio 2 leaves 1, 800,
  600, 2 at indices 0 to 3, the ten parameters in declared order at indices 4 to 13
  (each converted to single precision), and zero at indices 14 and 15; on any buffer
  it leaves indices 14 and 15 as they were.  The four standard values are
  single-precision numbers, which is the hypothesis on \<open>fr\<close>.
\<close>

theorem perlinNoise1_uniform_layout:
  assumes "fr 1 = 1" and "fr 800 = 800" and "fr 600 = 600" and "fr 2 = 2"
  shows "uniformFloats (renderers fr PerlinNoise1) = 16 \<and>
    writeUniforms (renderers fr PerlinNoise1)
       (new_Float32Array (uniformFloats (renderers fr PerlinNoise1))) 1 800 600 2 p =
     [Some 1, Some 800, Some 600, Some 2,
      map_option fr (p ''baseR''), map_option fr (p ''baseG''), map_option fr (p ''baseB''),
      map_option fr (p ''colAr''), map_option fr (p ''colAg''), map_option fr (p ''colAb''),
      map_option fr (p ''colBr''), map_option fr (p ''colBg''), map_option fr (p ''colBb''),
      map_option fr (p ''speed''), Some 0, Some 0] \<and>
    writeUniforms (renderers fr PerlinNoise1) buf t w h d p ! 14 = buf ! 14 \<and>
    writeUniforms (renderers fr PerlinNoise1) buf t w h d p ! 15 = buf ! 15"
proof -
  have "perlinNoise1_writeUniforms fr (new_Float32Array 16) 1 800 600 2 p =
     [Some 1, Some 800, Some 600, Some 2,
      map_option fr (p ''baseR''), map_option fr (p ''baseG''), map_option fr (p ''baseB''),
      map_option fr (p ''colAr''), map_option fr (p ''colAg''), map_option fr (p ''colAb''),
      map_option fr (p ''colBr''), map_option fr (p ''colBg''), map_option fr (p ''colBb''),
      map_option fr (p ''speed''), Some 0, Some 0]"
    unfolding new_Float32Array_16 using assms
    by (simp add: perlinNoise1_writeUniforms_def Let_def eval_nat_numeral
        f32_set_Cons_0 f32_set_Cons_Suc)
  with perlinNoise1_padding_kept [of fr buf t w h d p] show ?thesis
    by (simp add: perlinNoise1_def)
qed

lemma perlinNoise1_default_values:
  "perlinNoise1_defaultParams ''baseR'' = Some 0.06"
  "perlinNoise1_defaultParams ''baseG'' = Some 0.08"
  "perlinNoise1_defaultParams ''baseB'' = Some 0.12"
  "perlinNoise1_defaultParams ''colAr'' = Some 0.10"
  "perlinNoise1_defaultParams ''colAg'' = Some 0.35"
  "perlinNoise1_defaultParams ''colAb'' = Some 0.85"
  "perlinNoise1_defaultParams ''colBr'' = Some 0.85"
  "perlinNoise1_defaultParams ''colBg'' = Some 0.25"
  "perlinNoise1_defaultParams ''colBb'' = Some 0.55"
  "perlinNoise1_defaultParams ''speed'' = Some 0.15"
  by (simp_all add: perlinNoise1_defaultParams_def)

theorem perlinNoise1_uniform_layout_witness:
  "id (1::real) = 1 \<and> id (800::real) = 800 \<and> id (600::real) = 600 \<and> id (2::real) = 2 \<and>
   writeUniforms (renderers id PerlinNoise1)
       (new_Float32Array (uniformFloats (renderers id PerlinNoise1))) 1 800 600 2
       perlinNoise1_defaultParams =
     [Some 1, Some 800, Some 600, Some 2,
      Some 0.06, Some 0.08, Some 0.12, Some 0.10, Some 0.35, Some 0.85,
      Some 0.85, Some 0.25, Some 0.55, Some 0.15, Some 0, Some 0]"
proof -
  have e: "id (1::real) = 1" "id (800::real) = 800" "id (600::real) = 600" "id (2::real) = 2"
    by simp_all
  note l = perlinNoise1_uniform_layout [of id perlinNoise1_defaultParams, OF e,
      THEN conjunct2, THEN conjunct1]
  show ?thesis
    unfolding l perlinNoise1_default_values by simp
qed

end
